theory Spec2Isabelle
  imports Complex_Main
begin

section \<open>ABC/VEN analysis: the analyzer of \<open>analyzer.ts\<close>\<close>

subsection \<open>Numbers\<close>

text \<open>
  A TypeScript \<open>number\<close> that results from a division is modelled as an exact real
  extended by the three special values of IEEE arithmetic, so that \<open>0 / 0\<close> is \<open>NaN\<close>
  and \<open>x / 0\<close> is an infinity, as in the program. Rounding and overflow of finite values
  are not modelled: finite arithmetic is exact. The sign of zero is not modelled either;
  every zero denominator of the program is a \<open>+0\<close> (a length, or a sum started at \<open>0\<close>).
\<close>

datatype jsnum = Fin real | PosInf | NegInf | NaN

definition inf_signed :: "real \<Rightarrow> jsnum" where
  "inf_signed s = (if s = 0 then NaN else if 0 < s then PosInf else NegInf)"

fun js_add :: "jsnum \<Rightarrow> jsnum \<Rightarrow> jsnum" where
  "js_add (Fin a) (Fin b) = Fin (a + b)"
| "js_add NaN y = NaN"
| "js_add x NaN = NaN"
| "js_add PosInf NegInf = NaN"
| "js_add NegInf PosInf = NaN"
| "js_add PosInf y = PosInf"
| "js_add x PosInf = PosInf"
| "js_add NegInf y = NegInf"
| "js_add x NegInf = NegInf"

fun js_mul :: "jsnum \<Rightarrow> jsnum \<Rightarrow> jsnum" where
  "js_mul (Fin a) (Fin b) = Fin (a * b)"
| "js_mul NaN y = NaN"
| "js_mul x NaN = NaN"
| "js_mul PosInf (Fin b) = inf_signed b"
| "js_mul NegInf (Fin b) = inf_signed (- b)"
| "js_mul (Fin a) PosInf = inf_signed a"
| "js_mul (Fin a) NegInf = inf_signed (- a)"
| "js_mul PosInf PosInf = PosInf"
| "js_mul NegInf NegInf = PosInf"
| "js_mul PosInf NegInf = NegInf"
| "js_mul NegInf PosInf = NegInf"

fun js_div :: "jsnum \<Rightarrow> jsnum \<Rightarrow> jsnum" where
  "js_div (Fin a) (Fin b) = (if b = 0 then inf_signed a else Fin (a / b))"
| "js_div NaN y = NaN"
| "js_div x NaN = NaN"
| "js_div (Fin a) y = Fin 0"
| "js_div PosInf (Fin b) = (if 0 \<le> b then PosInf else NegInf)"
| "js_div NegInf (Fin b) = (if 0 \<le> b then NegInf else PosInf)"
| "js_div PosInf y = NaN"
| "js_div NegInf y = NaN"

fun js_lt :: "jsnum \<Rightarrow> jsnum \<Rightarrow> bool" where
  "js_lt (Fin a) (Fin b) = (a < b)"
| "js_lt NegInf (Fin b) = True"
| "js_lt NegInf PosInf = True"
| "js_lt (Fin a) PosInf = True"
| "js_lt x y = False"

fun js_le :: "jsnum \<Rightarrow> jsnum \<Rightarrow> bool" where
  "js_le (Fin a) (Fin b) = (a \<le> b)"
| "js_le NaN y = False"
| "js_le x NaN = False"
| "js_le NegInf y = True"
| "js_le x PosInf = True"
| "js_le x NegInf = False"
| "js_le PosInf y = False"

text \<open>The sum of a sequence of numbers, added from the left, starting at \<open>0\<close>.\<close>

definition js_sum :: "jsnum list \<Rightarrow> jsnum" where
  "js_sum xs = foldl js_add (Fin 0) xs"


subsection \<open>Data model (\<open>types.ts\<close>)\<close>

datatype VENCategory = V | E | N

datatype ABCCategory = A | B | C

text \<open>The anonymous \<open>{ count: number; amount: number }\<close> of the summaries, and
  \<open>CategoryStats\<close>, \<open>ABCSummary\<close> and \<open>VENSummary\<close>, which have the same two
  fields and more. A count is a number that starts at \<open>0\<close> and is only incremented.\<close>

record Group =
  count :: nat
  amount :: real

record CategoryStats = Group +
  percentCount :: jsnum
  percentAmount :: jsnum

record 'c Summary = CategoryStats +
  category :: 'c

type_synonym ABCSummary = "ABCCategory Summary"

type_synonym VENSummary = "VENCategory Summary"

text \<open>The amounts of the items are finite numbers, as the source of the records supplies
  them (the parser puts \<open>0\<close> for an amount that does not parse). From here on \<open>amount\<close>
  is the field of \<open>DrugItem\<close>, and the field of the aggregates is written
  \<open>Group.amount\<close>.\<close>

record DrugItem =
  code :: int
  name :: string
  unit :: string
  quantity :: real
  amount :: real
  ven :: VENCategory

record AnalyzedItem = DrugItem +
  percentOfTotal :: jsnum
  cumulativePercent :: jsnum
  abc :: ABCCategory

subsection \<open>\<open>Array.prototype.sort\<close> and \<open>reduce\<close>\<close>

text \<open>
  \<open>sort\<close> with a comparator \<open>cmp\<close> puts \<open>a\<close> before \<open>b\<close> when \<open>cmp(a, b) < 0\<close>,
  \<open>b\<close> before \<open>a\<close> when \<open>cmp(a, b) > 0\<close>, and is stable. For a consistent comparator
  that fixes the result; it is computed here by inserting the elements from the right,
  each one before the first element that it need not follow.
\<close>

fun insertBy :: "('a \<Rightarrow> 'a \<Rightarrow> real) \<Rightarrow> 'a \<Rightarrow> 'a list \<Rightarrow> 'a list" where
  "insertBy cmp x [] = [x]"
| "insertBy cmp x (y # ys) = (if 0 < cmp x y then y # insertBy cmp x ys else x # y # ys)"

definition Array_sort :: "('a \<Rightarrow> 'a \<Rightarrow> real) \<Rightarrow> 'a list \<Rightarrow> 'a list" where
  "Array_sort cmp xs = foldr (insertBy cmp) xs []"

text \<open>\<open>(a, b) => b.amount - a.amount\<close>\<close>

definition byAmountDesc :: "DrugItem \<Rightarrow> DrugItem \<Rightarrow> real" where
  "byAmountDesc a b = amount b - amount a"

text \<open>\<open>xs.reduce((sum, item) => sum + item.amount, 0)\<close>\<close>

definition sumAmount :: "('a DrugItem_scheme) list \<Rightarrow> real" where
  "sumAmount xs = foldl (\<lambda>sum item. sum + amount item) 0 xs"

subsection \<open>\<open>analyzeABC\<close>\<close>

text \<open>
  The callback of \<open>sorted.map\<close> reads and updates the variable \<open>cumulativePercent\<close> of
  the enclosing function; \<open>classify\<close> passes it along. The category is chosen from its
  value before the item's own share is added.
\<close>

fun classify :: "real \<Rightarrow> jsnum \<Rightarrow> DrugItem list \<Rightarrow> AnalyzedItem list" where
  "classify totalAmount cumulative [] = []"
| "classify totalAmount cumulative (item # rest) =
     (let pct = js_mul (js_div (Fin (amount item)) (Fin totalAmount)) (Fin 100);
          cat = (if js_lt cumulative (Fin 80) then A
                 else if js_lt cumulative (Fin 95) then B
                 else C);
          cumulative' = js_add cumulative pct
      in DrugItem.extend item
           \<lparr>percentOfTotal = pct, cumulativePercent = cumulative', abc = cat\<rparr>
         # classify totalAmount cumulative' rest)"

definition analyzeABC :: "DrugItem list \<Rightarrow> AnalyzedItem list" where
  "analyzeABC items =
     (let sorted = Array_sort byAmountDesc items;
          totalAmount = sumAmount sorted
      in classify totalAmount (Fin 0) sorted)"

text \<open>The cumulative share of the items strictly before position \<open>i\<close> of an output.\<close>

definition cumulativeBefore :: "AnalyzedItem list \<Rightarrow> nat \<Rightarrow> jsnum" where
  "cumulativeBefore out i = js_sum (map percentOfTotal (take i out))"

text \<open>The category that the chain of comparisons in \<open>analyzeABC\<close> gives to an item, from
  the cumulative share before it.\<close>

definition tierOf :: "jsnum \<Rightarrow> ABCCategory" where
  "tierOf c = (if js_lt c (Fin 80) then A else if js_lt c (Fin 95) then B else C)"

subsection \<open>The input array of \<open>analyzeABC\<close>\<close>

text \<open>
  \<open>sort\<close> sorts the array it is called on, in place. To see which array that is, arrays
  live in a store, at addresses: \<open>[...items]\<close> allocates a new array with the elements
  of \<open>items\<close>, and \<open>sort\<close> overwrites the array at the address it is given and returns
  that address. \<open>None\<close> stands for the \<open>TypeError\<close> of an address that holds no array.
  The items themselves are values: no statement of the analyzer assigns to a field of an
  input item, and \<open>{...item, ...}\<close> builds a new object. \<open>analyzeABC_heap\<close> is
  \<open>analyzeABC\<close> with the input given by its address; it returns the store as well.
\<close>

type_synonym heap = "DrugItem list list"

definition spread :: "heap \<Rightarrow> nat \<Rightarrow> (nat \<times> heap) option" where
  "spread h r = (if r < length h then Some (length h, h @ [h ! r]) else None)"

definition sort_in_place ::
    "(DrugItem \<Rightarrow> DrugItem \<Rightarrow> real) \<Rightarrow> heap \<Rightarrow> nat \<Rightarrow> (nat \<times> heap) option" where
  "sort_in_place cmp h r =
     (if r < length h then Some (r, h[r := Array_sort cmp (h ! r)]) else None)"

definition analyzeABC_heap :: "heap \<Rightarrow> nat \<Rightarrow> (AnalyzedItem list \<times> heap) option" where
  "analyzeABC_heap h items =
     (case spread h items of
        None \<Rightarrow> None
      | Some (copy, h1) \<Rightarrow>
          (case sort_in_place byAmountDesc h1 copy of
             None \<Rightarrow> None
           | Some (sortedCopy, h2) \<Rightarrow>
               Some (classify (sumAmount (h2 ! sortedCopy)) (Fin 0) (h2 ! sortedCopy), h2)))"

subsection \<open>\<open>getABCSummary\<close> and \<open>getVENSummary\<close>\<close>

text \<open>\<open>groups[key].count++; groups[key].amount += item.amount\<close>, for one item.\<close>

definition addItem :: "'a Group_scheme \<Rightarrow> 'b DrugItem_scheme \<Rightarrow> 'a Group_scheme" where
  "addItem g item = g\<lparr>count := count g + 1, Group.amount := Group.amount g + amount item\<rparr>"

text \<open>\<open>(x / y) * 100\<close>, with the division of the language.\<close>

definition percentOf :: "real \<Rightarrow> real \<Rightarrow> jsnum" where
  "percentOf x y = js_mul (js_div (Fin x) (Fin y)) (Fin 100)"

definition getABCSummary :: "AnalyzedItem list \<Rightarrow> ABCSummary list" where
  "getABCSummary analyzedItems =
     (let totalAmount = sumAmount analyzedItems;
          totalCount = length analyzedItems;
          groups = foldl (\<lambda>groups item. groups(abc item := addItem (groups (abc item)) item))
                     (\<lambda>category. \<lparr>count = 0, Group.amount = 0\<rparr>) analyzedItems
      in map (\<lambda>category.
                \<lparr>count = count (groups category),
                 Group.amount = Group.amount (groups category),
                 percentCount = percentOf (real (count (groups category))) (real totalCount),
                 percentAmount = percentOf (Group.amount (groups category)) totalAmount,
                 category = category\<rparr>)
           [A, B, C])"

definition getVENSummary :: "AnalyzedItem list \<Rightarrow> VENSummary list" where
  "getVENSummary analyzedItems =
     (let totalAmount = sumAmount analyzedItems;
          totalCount = length analyzedItems;
          groups = foldl (\<lambda>groups item. groups(ven item := addItem (groups (ven item)) item))
                     (\<lambda>category. \<lparr>count = 0, Group.amount = 0\<rparr>) analyzedItems
      in map (\<lambda>category.
                \<lparr>count = count (groups category),
                 Group.amount = Group.amount (groups category),
                 percentCount = percentOf (real (count (groups category))) (real totalCount),
                 percentAmount = percentOf (Group.amount (groups category)) totalAmount,
                 category = category\<rparr>)
           [V, E, N])"

subsection \<open>\<open>getABCVENMatrix\<close>\<close>

text \<open>
  \<open>ABCVENMatrix\<close> is an object of objects indexed by strings; the keys in use are the
  categories. It starts empty and is filled by two loops, so a key may be missing: reading
  a cell of a missing row, or a field of a missing cell, throws, which is \<open>None\<close> here.
\<close>

type_synonym ABCVENMatrix = "ABCCategory \<rightharpoonup> (VENCategory \<rightharpoonup> CategoryStats)"

definition zeroStats :: CategoryStats where
  "zeroStats = \<lparr>count = 0, Group.amount = 0, percentCount = Fin 0, percentAmount = Fin 0\<rparr>"

definition initMatrix :: ABCVENMatrix where
  "initMatrix =
     foldl (\<lambda>matrix abc'.
              matrix(abc' \<mapsto> foldl (\<lambda>row ven'. row(ven' \<mapsto> zeroStats)) Map.empty [V, E, N]))
       Map.empty [A, B, C]"

definition cellAt :: "ABCVENMatrix \<Rightarrow> ABCCategory \<Rightarrow> VENCategory \<Rightarrow> CategoryStats option" where
  "cellAt matrix abc' ven' = (case matrix abc' of None \<Rightarrow> None | Some row \<Rightarrow> row ven')"

definition updateCell ::
    "(CategoryStats \<Rightarrow> CategoryStats) \<Rightarrow> ABCCategory \<Rightarrow> VENCategory \<Rightarrow> ABCVENMatrix
       \<Rightarrow> ABCVENMatrix option" where
  "updateCell f abc' ven' matrix =
     (case matrix abc' of
        None \<Rightarrow> None
      | Some row \<Rightarrow>
          (case row ven' of
             None \<Rightarrow> None
           | Some cell \<Rightarrow> Some (matrix(abc' \<mapsto> row(ven' \<mapsto> f cell)))))"

fun countItems :: "AnalyzedItem list \<Rightarrow> ABCVENMatrix \<Rightarrow> ABCVENMatrix option" where
  "countItems [] matrix = Some matrix"
| "countItems (item # rest) matrix =
     (case updateCell (\<lambda>cell. addItem cell item) (abc item) (ven item) matrix of
        None \<Rightarrow> None
      | Some matrix' \<Rightarrow> countItems rest matrix')"

text \<open>The two assignments in the body of the last loops: the percentages of a cell, from
  its own count and amount and the totals.\<close>

definition relativeTo :: "nat \<Rightarrow> real \<Rightarrow> CategoryStats \<Rightarrow> CategoryStats" where
  "relativeTo totalCount totalAmount cell =
     cell\<lparr>percentCount := percentOf (real (count cell)) (real totalCount),
          percentAmount := percentOf (Group.amount cell) totalAmount\<rparr>"

fun setPercents ::
    "nat \<Rightarrow> real \<Rightarrow> (ABCCategory \<times> VENCategory) list \<Rightarrow> ABCVENMatrix \<Rightarrow> ABCVENMatrix option" where
  "setPercents totalCount totalAmount [] matrix = Some matrix"
| "setPercents totalCount totalAmount ((abc', ven') # rest) matrix =
     (case updateCell (relativeTo totalCount totalAmount) abc' ven' matrix of
        None \<Rightarrow> None
      | Some matrix' \<Rightarrow> setPercents totalCount totalAmount rest matrix')"

text \<open>The pairs of the nested loops \<open>for abc of [A, B, C]\<close>, \<open>for ven of [V, E, N]\<close>, in
  the order in which the loops visit them.\<close>

definition allCells :: "(ABCCategory \<times> VENCategory) list" where
  "allCells = concat (map (\<lambda>abc'. map (\<lambda>ven'. (abc', ven')) [V, E, N]) [A, B, C])"

definition getABCVENMatrix :: "AnalyzedItem list \<Rightarrow> ABCVENMatrix option" where
  "getABCVENMatrix analyzedItems =
     (let totalCount = length analyzedItems;
          totalAmount = sumAmount analyzedItems
      in case countItems analyzedItems initMatrix of
           None \<Rightarrow> None
         | Some matrix \<Rightarrow> setPercents totalCount totalAmount allCells matrix)"

text \<open>The nine cells of a matrix, in the order of the loops; \<open>None\<close> if one is missing.
  \<open>matrixCells\<close> are those of the matrix of a batch.\<close>

definition cellsOf :: "ABCVENMatrix \<Rightarrow> CategoryStats list option" where
  "cellsOf matrix = those (map (\<lambda>(abc', ven'). cellAt matrix abc' ven') allCells)"

definition matrixCells :: "AnalyzedItem list \<Rightarrow> CategoryStats list option" where
  "matrixCells analyzedItems =
     (case getABCVENMatrix analyzedItems of None \<Rightarrow> None | Some matrix \<Rightarrow> cellsOf matrix)"

text \<open>What the accumulation and the percentages make of the cell of one pair of
  categories: the number and the amounts of the items of that pair, relative to the
  totals.\<close>

definition cellFor :: "AnalyzedItem list \<Rightarrow> ABCCategory \<Rightarrow> VENCategory \<Rightarrow> CategoryStats" where
  "cellFor analyzedItems abc' ven' =
     relativeTo (length analyzedItems) (sumAmount analyzedItems)
       \<lparr>count = length (filter (\<lambda>i. abc i = abc' \<and> ven i = ven') analyzedItems),
        Group.amount = sumAmount (filter (\<lambda>i. abc i = abc' \<and> ven i = ven') analyzedItems),
        percentCount = Fin 0, percentAmount = Fin 0\<rparr>"

definition sumPercentCount :: "'a CategoryStats_scheme list \<Rightarrow> jsnum" where
  "sumPercentCount cells = js_sum (map percentCount cells)"

definition sumPercentAmount :: "'a CategoryStats_scheme list \<Rightarrow> jsnum" where
  "sumPercentAmount cells = js_sum (map percentAmount cells)"

subsection \<open>\<open>getVENDistributionByABC\<close>\<close>

text \<open>
  The result and \<open>abcGroups\<close> have the type \<open>Record<ABCCategory, ...>\<close> and are written
  down with all their keys, so they are total functions. Each round of the loop over the
  categories works on one row of the result.
\<close>

text \<open>The body of the loop over the categories: the items of one category, and the row
  of the result that belongs to it.\<close>

definition tierRow ::
    "AnalyzedItem list \<Rightarrow> (VENCategory \<Rightarrow> CategoryStats) \<Rightarrow> VENCategory \<Rightarrow> CategoryStats" where
  "tierRow groupItems row0 =
     (let groupCount = length groupItems;
          groupAmount = sumAmount groupItems;
          counted = foldl (\<lambda>row item. row(ven item := addItem (row (ven item)) item))
                      row0 groupItems
      in foldl (\<lambda>row ven'.
                  row(ven' := (row ven')
                    \<lparr>percentCount :=
                       (if 0 < groupCount
                        then percentOf (real (count (row ven'))) (real groupCount)
                        else Fin 0),
                     percentAmount :=
                       (if 0 < groupAmount
                        then percentOf (Group.amount (row ven')) groupAmount
                        else Fin 0)\<rparr>))
           counted [V, E, N])"

definition getVENDistributionByABC ::
    "AnalyzedItem list \<Rightarrow> ABCCategory \<Rightarrow> VENCategory \<Rightarrow> CategoryStats" where
  "getVENDistributionByABC analyzedItems =
     (let abcGroups = foldl (\<lambda>groups item. groups(abc item := groups (abc item) @ [item]))
                        (\<lambda>abc'. []) analyzedItems
      in foldl (\<lambda>result abc'. result(abc' := tierRow (abcGroups abc') (result abc')))
           (\<lambda>abc' ven'. zeroStats) [A, B, C])"

text \<open>The three cells of one category in a distribution, and the items of a category.\<close>

definition tierCells ::
    "(ABCCategory \<Rightarrow> VENCategory \<Rightarrow> CategoryStats) \<Rightarrow> ABCCategory \<Rightarrow> CategoryStats list" where
  "tierCells distribution abc' = map (distribution abc') [V, E, N]"

definition itemsOfTier :: "ABCCategory \<Rightarrow> AnalyzedItem list \<Rightarrow> AnalyzedItem list" where
  "itemsOfTier abc' analyzedItems = filter (\<lambda>item. abc item = abc') analyzedItems"

subsection \<open>Sample items\<close>

text \<open>After \<open>createItem\<close> and \<open>createAnalyzedItem\<close> of \<open>analyzer.test.ts\<close>, with a
  fixed name and unit.\<close>

definition createItem :: "int \<Rightarrow> real \<Rightarrow> VENCategory \<Rightarrow> DrugItem" where
  "createItem c a v =
     \<lparr>code = c, name = ''item'', unit = ''pack'', quantity = 10, amount = a, ven = v\<rparr>"

definition createAnalyzedItem :: "int \<Rightarrow> real \<Rightarrow> ABCCategory \<Rightarrow> VENCategory \<Rightarrow> AnalyzedItem" where
  "createAnalyzedItem c a t v =
     \<lparr>code = c, name = ''item'', unit = ''pack'', quantity = 10, amount = a, ven = v,
      percentOfTotal = Fin 0, cumulativePercent = Fin 0, abc = t\<rparr>"

section \<open>Properties\<close>

subsection \<open>Sums\<close>

lemma foldl_add_amount: "foldl (\<lambda>sum item. sum + amount item) s xs = s + sum_list (map amount xs)"
  by (induction xs arbitrary: s) simp_all

lemma sumAmount_sum_list: "sumAmount xs = sum_list (map amount xs)"
  by (simp add: sumAmount_def foldl_add_amount)

lemma sumAmount_Nil [simp]: "sumAmount [] = 0"
  by (simp add: sumAmount_def)

lemma sumAmount_Cons [simp]: "sumAmount (x # xs) = amount x + sumAmount xs"
  by (simp add: sumAmount_sum_list)

lemma sumAmount_append [simp]: "sumAmount (xs @ ys) = sumAmount xs + sumAmount ys"
  by (simp add: sumAmount_sum_list)

lemma js_sum_Fin: "foldl js_add (Fin c) (map Fin xs) = Fin (c + sum_list xs)"
  by (induction xs arbitrary: c) simp_all

lemma js_sum_map_Fin: "js_sum (map (\<lambda>x. Fin (f x)) xs) = Fin (sum_list (map f xs))"
  using js_sum_Fin [of 0 "map f xs"] by (simp add: js_sum_def comp_def)


lemma percentOf_Fin: "t \<noteq> 0 \<Longrightarrow> percentOf x t = Fin (x / t * 100)"
  by (simp add: percentOf_def)


subsection \<open>Sorting\<close>

lemma insertBy_insort_key:
  "insertBy byAmountDesc x ys = insort_key (\<lambda>i. - amount i) x ys"
  by (induction ys) (simp_all add: byAmountDesc_def)

lemma Array_sort_sort_key:
  "Array_sort byAmountDesc xs = sort_key (\<lambda>i. - amount i) xs"
proof -
  have "insertBy byAmountDesc = insort_key (\<lambda>i. - amount i)"
    by (intro ext) (rule insertBy_insort_key)
  then show ?thesis
    by (simp add: Array_sort_def sort_key_def)
qed

lemma Array_sort_descending:
  "sorted_wrt (\<lambda>x y. amount y \<le> amount x) (Array_sort byAmountDesc xs)"
proof -
  have "sorted (map (\<lambda>i. - amount i) (sort_key (\<lambda>i. - amount i) xs))"
    by (rule sorted_sort_key)
  then show ?thesis
    by (simp add: Array_sort_sort_key sorted_wrt_map)
qed

lemma Array_sort_stable:
  "filter (\<lambda>i. amount i = k) (Array_sort byAmountDesc xs) = filter (\<lambda>i. amount i = k) xs"
proof -
  have "filter (\<lambda>i. - amount i = - k) (sort_key (\<lambda>i. - amount i) xs)
          = filter (\<lambda>i. - amount i = - k) xs"
    by (rule sort_key_stable)
  then show ?thesis
    by (simp add: Array_sort_sort_key)
qed

lemma length_Array_sort [simp]: "length (Array_sort byAmountDesc xs) = length xs"
  by (simp add: Array_sort_sort_key)

lemma set_Array_sort [simp]: "set (Array_sort byAmountDesc xs) = set xs"
  by (simp add: Array_sort_sort_key)

lemma sum_list_insertBy:
  "sum_list (map f (insertBy cmp x ys)) = f x + sum_list (map f ys)"
  for f :: "'a \<Rightarrow> real"
  by (induction ys) simp_all

lemma sumAmount_Array_sort [simp]: "sumAmount (Array_sort cmp xs) = sumAmount xs"
  by (induction xs) (simp_all add: Array_sort_def sumAmount_sum_list sum_list_insertBy)

lemma first_is_max:
  assumes "sorted_wrt (\<lambda>x y. amount y \<le> amount x) xs" "x \<in> set xs"
  shows "amount x \<le> amount (hd xs)"
  using assms by (cases xs) auto

subsection \<open>\<open>classify\<close>\<close>

lemma length_classify [simp]: "length (classify t c xs) = length xs"
  by (induction xs arbitrary: c) (simp_all add: Let_def)

lemma truncate_classify [simp]: "map DrugItem.truncate (classify t c xs) = xs"
  by (induction xs arbitrary: c) (simp_all add: Let_def DrugItem.extend_def DrugItem.truncate_def)

lemma amount_classify [simp]: "map amount (classify t c xs) = map amount xs"
  by (induction xs arbitrary: c) (simp_all add: Let_def DrugItem.extend_def)

lemma classify_Nil_iff [simp]: "classify t c xs = [] \<longleftrightarrow> xs = []"
  by (cases xs) (simp_all add: Let_def)

lemma classify_nth:
  "i < length xs \<Longrightarrow>
     abc (classify t c xs ! i)
       = tierOf (foldl js_add c (map percentOfTotal (take i (classify t c xs)))) \<and>
     cumulativePercent (classify t c xs ! i)
       = js_add (foldl js_add c (map percentOfTotal (take i (classify t c xs))))
           (percentOfTotal (classify t c xs ! i)) \<and>
     percentOfTotal (classify t c xs ! i) = percentOf (amount (xs ! i)) t"
proof (induction xs arbitrary: c i)
  case Nil
  then show ?case by simp
next
  case (Cons x xs)
  show ?case
  proof (cases i)
    case 0
    then show ?thesis
      by (simp add: Let_def DrugItem.extend_def tierOf_def percentOf_def)
  next
    case (Suc j)
    with Cons.prems have "j < length xs" by simp
    from Cons.IH [OF this] Suc show ?thesis
      by (simp add: Let_def DrugItem.extend_def)
  qed
qed

lemma classify_step_Fin:
  "t \<noteq> 0 \<Longrightarrow> classify t (Fin c) (x # xs)
     = DrugItem.extend x \<lparr>percentOfTotal = Fin (amount x / t * 100),
         cumulativePercent = Fin (c + amount x / t * 100), abc = tierOf (Fin c)\<rparr>
       # classify t (Fin (c + amount x / t * 100)) xs"
  by (simp add: Let_def tierOf_def)

lemma classify_percent_Fin:
  "t \<noteq> 0 \<Longrightarrow>
     map percentOfTotal (classify t (Fin c) xs) = map (\<lambda>x. Fin (amount x / t * 100)) xs"
  by (induction xs arbitrary: c)
     (simp_all add: classify_step_Fin DrugItem.extend_def del: classify.simps)




subsection \<open>\<open>analyzeABC\<close>: order of the output\<close>

lemma analyzeABC_classify:
  "analyzeABC items = classify (sumAmount items) (Fin 0) (Array_sort byAmountDesc items)"
  by (simp add: analyzeABC_def Let_def)

lemmas analyzeABC_eval = analyzeABC_classify Array_sort_def byAmountDesc_def createItem_def
  DrugItem.extend_def Let_def inf_signed_def

lemma truncate_analyzeABC: "map DrugItem.truncate (analyzeABC items) = Array_sort byAmountDesc items"
  by (simp add: analyzeABC_classify)

lemma analyzeABC_descending:
  "sorted_wrt (\<lambda>x y. amount y \<le> amount x) (analyzeABC items)"
proof -
  have "sorted_wrt (\<lambda>a b. b \<le> a) (map amount (Array_sort byAmountDesc items))"
    using Array_sort_descending [of items] by (simp add: sorted_wrt_map)
  then have "sorted_wrt (\<lambda>a b. b \<le> a) (map amount (analyzeABC items))"
    by (simp add: analyzeABC_classify)
  then show ?thesis
    by (simp add: sorted_wrt_map)
qed

lemma analyzeABC_heap_result:
  assumes "r < length h"
  shows "analyzeABC_heap h r = Some (analyzeABC (h ! r), h @ [Array_sort byAmountDesc (h ! r)])"
  using assms
  by (simp add: analyzeABC_heap_def spread_def sort_in_place_def analyzeABC_def Let_def nth_append)

text \<open>
  Claim C4. The output of \<open>analyzeABC\<close> is in non-increasing order of \<open>amount\<close>; items
  of one amount keep the order they had in the input (for every amount \<open>k\<close>, the items
  of amount \<open>k\<close> are the same sequence in the output as in the input, each with the fields
  it had); and the call leaves every array that existed before it, the input among them,
  as it was: the array that is sorted in place is the fresh copy.
\<close>

theorem analyzeABC_sorted_stable_input_kept:
  assumes "r < length h"
  shows "\<exists>out h'. analyzeABC_heap h r = Some (out, h') \<and> out = analyzeABC (h ! r) \<and>
           take (length h) h' = h \<and>
           sorted_wrt (\<lambda>x y. amount y \<le> amount x) out \<and>
           (\<forall>k. filter (\<lambda>i. amount i = k) (map DrugItem.truncate out)
                  = filter (\<lambda>i. amount i = k) (h ! r))"
  using assms
  by (simp add: analyzeABC_heap_result analyzeABC_descending truncate_analyzeABC Array_sort_stable)

theorem analyzeABC_sorted_stable_input_kept_witness:
  "(0::nat) < length [[createItem 1 100 V, createItem 2 300 V, createItem 3 100 E]] \<and>
   analyzeABC_heap [[createItem 1 100 V, createItem 2 300 V, createItem 3 100 E]] 0
     = Some (analyzeABC [createItem 1 100 V, createItem 2 300 V, createItem 3 100 E],
             [[createItem 1 100 V, createItem 2 300 V, createItem 3 100 E],
              [createItem 2 300 V, createItem 1 100 V, createItem 3 100 E]]) \<and>
   map code (analyzeABC [createItem 1 100 V, createItem 2 300 V, createItem 3 100 E]) = [2, 1, 3]"
  using analyzeABC_sorted_stable_input_kept [of 0 "[[createItem 1 100 V, createItem 2 300 V, createItem 3 100 E]]"]
  by (simp add: analyzeABC_heap_result createItem_def analyzeABC_classify Array_sort_def byAmountDesc_def Let_def DrugItem.extend_def)

text \<open>
  Claim C6. For a non-empty input the first item of the output of \<open>analyzeABC\<close> is in
  category \<open>A\<close>, whatever its share, and no item of the input has a larger amount. A
  single item of amount \<open>100\<close> gets category \<open>A\<close>, \<open>percentOfTotal = 100\<close> and
  \<open>cumulativePercent = 100\<close>.
\<close>

theorem analyzeABC_top_item_is_A:
  assumes "items \<noteq> []"
  shows "analyzeABC items \<noteq> [] \<and> abc (hd (analyzeABC items)) = A \<and>
         (\<forall>i\<in>set items. amount i \<le> amount (hd (analyzeABC items))) \<and>
         analyzeABC [x\<lparr>amount := 100\<rparr>]
           = [DrugItem.extend (x\<lparr>amount := 100\<rparr>)
                \<lparr>percentOfTotal = Fin 100, cumulativePercent = Fin 100, abc = A\<rparr>]"
proof -
  from assms have ne: "Array_sort byAmountDesc items \<noteq> []"
    by (metis length_Array_sort length_0_conv)
  then have 1: "analyzeABC items \<noteq> []"
    by (simp add: analyzeABC_classify)
  from ne have 2: "abc (hd (analyzeABC items)) = A"
    by (cases "Array_sort byAmountDesc items")
       (simp_all add: analyzeABC_classify Let_def DrugItem.extend_def)
  have 3: "\<forall>i\<in>set items. amount i \<le> amount (hd (analyzeABC items))"
  proof
    fix i assume "i \<in> set items"
    then have "i \<in> set (Array_sort byAmountDesc items)" by simp
    then have "amount i \<le> amount (hd (Array_sort byAmountDesc items))"
      using Array_sort_descending [of items] first_is_max by blast
    moreover have "amount (hd (analyzeABC items)) = amount (hd (Array_sort byAmountDesc items))"
      using ne amount_classify [of "sumAmount items" "Fin 0" "Array_sort byAmountDesc items"]
      by (metis analyzeABC_classify classify_Nil_iff hd_map)
    ultimately show "amount i \<le> amount (hd (analyzeABC items))" by simp
  qed
  have 4: "analyzeABC [x\<lparr>amount := 100\<rparr>]
           = [DrugItem.extend (x\<lparr>amount := 100\<rparr>)
                \<lparr>percentOfTotal = Fin 100, cumulativePercent = Fin 100, abc = A\<rparr>]"
    by (simp add: analyzeABC_classify Array_sort_def Let_def)
  from 1 2 3 4 show ?thesis by blast
qed

theorem analyzeABC_top_item_is_A_witness:
  "[createItem 1 20 V, createItem 2 70 E] \<noteq> [] \<and>
   abc (hd (analyzeABC [createItem 1 20 V, createItem 2 70 E])) = A \<and>
   code (hd (analyzeABC [createItem 1 20 V, createItem 2 70 E])) = 2 \<and>
   analyzeABC [createItem 7 100 N]
     = [DrugItem.extend (createItem 7 100 N)
          \<lparr>percentOfTotal = Fin 100, cumulativePercent = Fin 100, abc = A\<rparr>]"
  using analyzeABC_top_item_is_A [of "[createItem 1 20 V, createItem 2 70 E]" "createItem 7 3 N"]
  by (simp add: createItem_def analyzeABC_classify Array_sort_def byAmountDesc_def Let_def DrugItem.extend_def)

subsection \<open>\<open>analyzeABC\<close>: cumulative shares\<close>




subsection \<open>\<open>analyzeABC\<close>: categories\<close>

text \<open>
  For every input, the category of an item of the output is the one the chain of
  comparisons gives to the cumulative share before it, and its \<open>cumulativePercent\<close> is
  that share plus its own. When the total is not zero the shares are finite, and the
  chain of comparisons is the partition at \<open>80\<close> and \<open>95\<close>.
\<close>

lemma analyzeABC_tier_of_cumulativeBefore:
  assumes "i < length (analyzeABC items)"
  shows "abc (analyzeABC items ! i) = tierOf (cumulativeBefore (analyzeABC items) i) \<and>
         cumulativePercent (analyzeABC items ! i)
           = js_add (cumulativeBefore (analyzeABC items) i) (percentOfTotal (analyzeABC items ! i))"
  using assms classify_nth [of i "Array_sort byAmountDesc items" "sumAmount items" "Fin 0"]
  by (simp add: analyzeABC_classify cumulativeBefore_def js_sum_def)

lemma cumulativeBefore_Fin:
  assumes "sumAmount items \<noteq> 0"
  shows "\<exists>r. cumulativeBefore (analyzeABC items) i = Fin r"
proof -
  have "map percentOfTotal (take i (analyzeABC items))
          = map (\<lambda>x. Fin (amount x / sumAmount items * 100))
              (take i (Array_sort byAmountDesc items))"
    using assms by (simp add: analyzeABC_classify classify_percent_Fin flip: take_map)
  then show ?thesis
    by (simp add: cumulativeBefore_def js_sum_map_Fin)
qed

lemma tierOf_Fin:
  "tierOf (Fin r) = A \<longleftrightarrow> r < 80"
  "tierOf (Fin r) = B \<longleftrightarrow> 80 \<le> r \<and> r < 95"
  "tierOf (Fin r) = C \<longleftrightarrow> 95 \<le> r"
  by (auto simp: tierOf_def)

lemma analyzeABC_tiers_nonzero_total:
  assumes "sumAmount items \<noteq> 0" and "i < length (analyzeABC items)"
  shows "(abc (analyzeABC items ! i) = A
            \<longleftrightarrow> js_lt (cumulativeBefore (analyzeABC items) i) (Fin 80)) \<and>
         (abc (analyzeABC items ! i) = B
            \<longleftrightarrow> js_le (Fin 80) (cumulativeBefore (analyzeABC items) i) \<and>
                js_lt (cumulativeBefore (analyzeABC items) i) (Fin 95)) \<and>
         (abc (analyzeABC items ! i) = C
            \<longleftrightarrow> js_le (Fin 95) (cumulativeBefore (analyzeABC items) i)) \<and>
         cumulativePercent (analyzeABC items ! i)
           = js_add (cumulativeBefore (analyzeABC items) i) (percentOfTotal (analyzeABC items ! i))"
proof -
  from cumulativeBefore_Fin [OF assms(1), of i]
  obtain r where r: "cumulativeBefore (analyzeABC items) i = Fin r" by blast
  from analyzeABC_tier_of_cumulativeBefore [OF assms(2)] r show ?thesis
    by (simp add: tierOf_Fin)
qed

text \<open>
  Claim C1 puts an item in category \<open>C\<close> exactly when the cumulative share before it
  is at least \<open>95\<close>. For two items of amount \<open>0\<close> the total is \<open>0\<close> and every share is
  \<open>0 / 0\<close>: the second item is put in category \<open>C\<close>, and the cumulative share before
  it is \<open>NaN\<close>, which is not at least \<open>95\<close>.
\<close>

theorem analyzeABC_zero_total_tier:
  "abc (analyzeABC [createItem 1 0 V, createItem 2 0 V] ! 1) = C \<and>
   cumulativeBefore (analyzeABC [createItem 1 0 V, createItem 2 0 V]) 1 = NaN \<and>
   \<not> js_le (Fin 95) (cumulativeBefore (analyzeABC [createItem 1 0 V, createItem 2 0 V]) 1)"
  by (simp add: analyzeABC_eval cumulativeBefore_def js_sum_def)

subsection \<open>Grouping\<close>

lemma foldl_group_update:
  "foldl (\<lambda>g item. g(k item := f (g (k item)) item)) g0 items c
     = foldl f (g0 c) (filter (\<lambda>i. k i = c) items)"
  by (induction items arbitrary: g0) simp_all

lemma count_foldl_addItem [simp]: "count (foldl addItem g xs) = count g + length xs"
  by (induction xs arbitrary: g) (simp_all add: addItem_def)

lemma amount_foldl_addItem [simp]:
  "Group.amount (foldl addItem g xs) = Group.amount g + sumAmount xs"
  by (induction xs arbitrary: g) (simp_all add: addItem_def)

lemma more_foldl_addItem [simp]: "Group.more (foldl addItem g xs) = Group.more g"
  by (induction xs arbitrary: g) (simp_all add: addItem_def)

lemma percents_foldl_addItem [simp]:
  "percentCount (foldl addItem g xs) = percentCount g"
  "percentAmount (foldl addItem g xs) = percentAmount g"
  by (induction xs arbitrary: g) (simp_all add: addItem_def)









subsection \<open>The summaries\<close>

lemma getABCSummary_entries:
  "getABCSummary items =
     map (\<lambda>c. \<lparr>count = length (filter (\<lambda>i. abc i = c) items),
               Group.amount = sumAmount (filter (\<lambda>i. abc i = c) items),
               percentCount = percentOf (real (length (filter (\<lambda>i. abc i = c) items)))
                                (real (length items)),
               percentAmount = percentOf (sumAmount (filter (\<lambda>i. abc i = c) items))
                                 (sumAmount items),
               category = c\<rparr>) [A, B, C]"
  unfolding getABCSummary_def Let_def foldl_group_update by simp

lemma getVENSummary_entries:
  "getVENSummary items =
     map (\<lambda>c. \<lparr>count = length (filter (\<lambda>i. ven i = c) items),
               Group.amount = sumAmount (filter (\<lambda>i. ven i = c) items),
               percentCount = percentOf (real (length (filter (\<lambda>i. ven i = c) items)))
                                (real (length items)),
               percentAmount = percentOf (sumAmount (filter (\<lambda>i. ven i = c) items))
                                 (sumAmount items),
               category = c\<rparr>) [V, E, N]"
  unfolding getVENSummary_def Let_def foldl_group_update by simp

lemmas summary_eval = getABCSummary_entries getVENSummary_entries percentOf_def inf_signed_def


subsection \<open>The matrix\<close>

lemma cellAt_initMatrix: "cellAt initMatrix = (\<lambda>a v. Some zeroStats)"
proof (intro ext)
  fix a v
  show "cellAt initMatrix a v = Some zeroStats"
    by (cases a; cases v; simp add: initMatrix_def cellAt_def)
qed

lemma updateCell_full:
  assumes "cellAt m = (\<lambda>a v. Some (g a v))"
  shows "\<exists>m'. updateCell f a v m = Some m' \<and>
           cellAt m' = (\<lambda>a' v'. Some (if a' = a \<and> v' = v then f (g a v) else g a' v'))"
proof -
  from assms have at: "cellAt m a' v' = Some (g a' v')" for a' v'
    by simp
  from at [of a v] obtain row where row: "m a = Some row" "row v = Some (g a v)"
    by (auto simp: cellAt_def split: option.splits)
  then have upd: "updateCell f a v m = Some (m(a \<mapsto> row(v \<mapsto> f (g a v))))"
    by (simp add: updateCell_def)
  have "cellAt (m(a \<mapsto> row(v \<mapsto> f (g a v)))) a' v'
          = Some (if a' = a \<and> v' = v then f (g a v) else g a' v')" for a' v'
    using at [of a' v'] row by (auto simp: cellAt_def)
  then have "cellAt (m(a \<mapsto> row(v \<mapsto> f (g a v))))
          = (\<lambda>a' v'. Some (if a' = a \<and> v' = v then f (g a v) else g a' v'))"
    by (intro ext)
  with upd show ?thesis by blast
qed

lemma countItems_full:
  assumes "cellAt m = (\<lambda>a v. Some (g a v))"
  shows "\<exists>m'. countItems items m = Some m' \<and>
           cellAt m' = (\<lambda>a v. Some (foldl addItem (g a v)
                                      (filter (\<lambda>i. abc i = a \<and> ven i = v) items)))"
  using assms
proof (induction items arbitrary: m g)
  case Nil
  then show ?case by simp
next
  case (Cons item items)
  from updateCell_full [OF Cons.prems, of "\<lambda>cell. addItem cell item" "abc item" "ven item"]
  obtain m1 where m1: "updateCell (\<lambda>cell. addItem cell item) (abc item) (ven item) m = Some m1"
    and at1: "cellAt m1 = (\<lambda>a v. Some (if a = abc item \<and> v = ven item
                                          then addItem (g (abc item) (ven item)) item else g a v))"
    by blast
  from Cons.IH [OF at1] obtain m' where m': "countItems items m1 = Some m'"
    and at': "cellAt m' = (\<lambda>a v. Some (foldl addItem
                 (if a = abc item \<and> v = ven item
                  then addItem (g (abc item) (ven item)) item else g a v)
                 (filter (\<lambda>i. abc i = a \<and> ven i = v) items)))"
    by blast
  have "cellAt m' = (\<lambda>a v. Some (foldl addItem (g a v)
                                   (filter (\<lambda>i. abc i = a \<and> ven i = v) (item # items))))"
    unfolding at' by (intro ext) auto
  with m1 m' show ?case by simp
qed

lemma relativeTo_idem [simp]: "relativeTo n t (relativeTo n t c) = relativeTo n t c"
  by (simp add: relativeTo_def)

lemma setPercents_full:
  assumes "cellAt m = (\<lambda>a v. Some (g a v))"
  shows "\<exists>m'. setPercents n t cells m = Some m' \<and>
           cellAt m' = (\<lambda>a v. Some (if (a, v) \<in> set cells then relativeTo n t (g a v)
                                      else g a v))"
  using assms
proof (induction cells arbitrary: m g)
  case Nil
  then show ?case by simp
next
  case (Cons p cells)
  obtain a v where p: "p = (a, v)" by (cases p)
  from updateCell_full [OF Cons.prems, of "relativeTo n t" a v]
  obtain m1 where m1: "updateCell (relativeTo n t) a v m = Some m1"
    and at1: "cellAt m1 = (\<lambda>a' v'. Some (if a' = a \<and> v' = v then relativeTo n t (g a v)
                                            else g a' v'))"
    by blast
  from Cons.IH [OF at1] obtain m' where m': "setPercents n t cells m1 = Some m'"
    and at': "cellAt m' = (\<lambda>a' v'. Some (if (a', v') \<in> set cells
                 then relativeTo n t (if a' = a \<and> v' = v then relativeTo n t (g a v) else g a' v')
                 else (if a' = a \<and> v' = v then relativeTo n t (g a v) else g a' v')))"
    by blast
  have "cellAt m' = (\<lambda>a' v'. Some (if (a', v') \<in> set (p # cells)
                                     then relativeTo n t (g a' v') else g a' v'))"
    unfolding at' p by (intro ext) auto
  with m1 m' p show ?case by simp
qed

lemma allCells_complete: "(a, v) \<in> set allCells"
  by (cases a; cases v; simp add: allCells_def)

lemma getABCVENMatrix_cells:
  "\<exists>m. getABCVENMatrix items = Some m \<and> cellAt m = (\<lambda>a v. Some (cellFor items a v))"
proof -
  from countItems_full [OF cellAt_initMatrix, of items]
  obtain m1 where m1: "countItems items initMatrix = Some m1"
    and at1: "cellAt m1 = (\<lambda>a v. Some (foldl addItem zeroStats
                                      (filter (\<lambda>i. abc i = a \<and> ven i = v) items)))"
    by blast
  from setPercents_full [OF at1, of "length items" "sumAmount items" allCells]
  obtain m where m: "setPercents (length items) (sumAmount items) allCells m1 = Some m"
    and at: "cellAt m = (\<lambda>a v. Some (relativeTo (length items) (sumAmount items)
                (foldl addItem zeroStats (filter (\<lambda>i. abc i = a \<and> ven i = v) items))))"
    by (auto simp: allCells_complete)
  have "relativeTo (length items) (sumAmount items)
                (foldl addItem zeroStats (filter (\<lambda>i. abc i = a \<and> ven i = v) items))
        = cellFor items a v" for a v
    by (simp add: relativeTo_def cellFor_def zeroStats_def)
  with at have "cellAt m = (\<lambda>a v. Some (cellFor items a v))"
    by simp
  with m1 m show ?thesis
    by (simp add: getABCVENMatrix_def Let_def)
qed

lemma matrixCells_eq:
  "matrixCells items = Some (map (\<lambda>(a, v). cellFor items a v) allCells)"
proof -
  from getABCVENMatrix_cells [of items] obtain m where
    m: "getABCVENMatrix items = Some m" and at: "cellAt m = (\<lambda>a v. Some (cellFor items a v))"
    by blast
  have "cellsOf m = Some (map (\<lambda>(a, v). cellFor items a v) allCells)"
    by (simp add: cellsOf_def at allCells_def)
  with m show ?thesis by (simp add: matrixCells_def)
qed

lemma cellFor_fields [simp]:
  "count (cellFor items a v) = length (filter (\<lambda>i. abc i = a \<and> ven i = v) items)"
  "Group.amount (cellFor items a v) = sumAmount (filter (\<lambda>i. abc i = a \<and> ven i = v) items)"
  "percentCount (cellFor items a v)
     = percentOf (real (length (filter (\<lambda>i. abc i = a \<and> ven i = v) items))) (real (length items))"
  "percentAmount (cellFor items a v)
     = percentOf (sumAmount (filter (\<lambda>i. abc i = a \<and> ven i = v) items)) (sumAmount items)"
  by (simp_all add: cellFor_def relativeTo_def)

lemmas cells_eval = matrixCells_eq allCells_def cellFor_def relativeTo_def percentOf_def
  inf_signed_def createAnalyzedItem_def sumPercentAmount_def js_sum_def





subsection \<open>The distribution\<close>

lemma foldl_snoc: "foldl (\<lambda>l item. l @ [item]) l0 xs = l0 @ xs"
  by (induction xs arbitrary: l0) simp_all

lemma abcGroups_filter:
  "foldl (\<lambda>groups item. groups(abc item := groups (abc item) @ [item])) (\<lambda>a. []) items a
     = itemsOfTier a items"
  using foldl_group_update [of abc "\<lambda>l item. l @ [item]" "\<lambda>a. []" items a]
  by (simp add: foldl_snoc itemsOfTier_def)

lemma tierRow_cell:
  "tierRow groupItems row0 v =
     (foldl addItem (row0 v) (filter (\<lambda>i. ven i = v) groupItems))
       \<lparr>percentCount :=
          (if 0 < length groupItems
           then percentOf (real (count (row0 v) + length (filter (\<lambda>i. ven i = v) groupItems)))
                  (real (length groupItems))
           else Fin 0),
        percentAmount :=
          (if 0 < sumAmount groupItems
           then percentOf (Group.amount (row0 v) + sumAmount (filter (\<lambda>i. ven i = v) groupItems))
                  (sumAmount groupItems)
           else Fin 0)\<rparr>"
  unfolding tierRow_def Let_def foldl_group_update
  by (cases v) simp_all

lemma getVENDistributionByABC_row:
  "getVENDistributionByABC items a = tierRow (itemsOfTier a items) (\<lambda>v. zeroStats)"
proof -
  have "(\<lambda>a. foldl (\<lambda>groups item. groups(abc item := groups (abc item) @ [item]))
               (\<lambda>a. []) items a) = (\<lambda>a. itemsOfTier a items)"
    by (intro ext) (rule abcGroups_filter)
  then have "foldl (\<lambda>groups item. groups(abc item := groups (abc item) @ [item]))
               (\<lambda>a. []) items = (\<lambda>a. itemsOfTier a items)"
    by simp
  then show ?thesis
    unfolding getVENDistributionByABC_def Let_def
    by (cases a) simp_all
qed

lemma distribution_fields:
  "count (getVENDistributionByABC items a v)
     = length (filter (\<lambda>i. ven i = v) (itemsOfTier a items))"
  "Group.amount (getVENDistributionByABC items a v)
     = sumAmount (filter (\<lambda>i. ven i = v) (itemsOfTier a items))"
  "percentCount (getVENDistributionByABC items a v)
     = (if 0 < length (itemsOfTier a items)
        then percentOf (real (length (filter (\<lambda>i. ven i = v) (itemsOfTier a items))))
               (real (length (itemsOfTier a items)))
        else Fin 0)"
  "percentAmount (getVENDistributionByABC items a v)
     = (if 0 < sumAmount (itemsOfTier a items)
        then percentOf (sumAmount (filter (\<lambda>i. ven i = v) (itemsOfTier a items)))
               (sumAmount (itemsOfTier a items))
        else Fin 0)"
  by (simp_all add: getVENDistributionByABC_row tierRow_cell zeroStats_def)

lemmas dist_eval = distribution_fields itemsOfTier_def tierCells_def createAnalyzedItem_def
  percentOf_def inf_signed_def sumPercentAmount_def sumPercentCount_def js_sum_def zeroStats_def




text \<open>
  Claim C10. For a category that has an item and whose amounts sum to zero, every cell of
  its row has \<open>percentAmount = 0\<close>, while its \<open>percentCount\<close> is the count of the cell
  divided by the number of items of the category, times \<open>100\<close>.
\<close>

theorem distribution_zero_amount_tier:
  assumes "0 < length (itemsOfTier a items)" and "sumAmount (itemsOfTier a items) = 0"
  shows "percentAmount (getVENDistributionByABC items a v) = Fin 0 \<and>
         count (getVENDistributionByABC items a v)
           = length (filter (\<lambda>i. ven i = v) (itemsOfTier a items)) \<and>
         percentCount (getVENDistributionByABC items a v)
           = Fin (real (count (getVENDistributionByABC items a v))
                    / real (length (itemsOfTier a items)) * 100)"
  using assms by (simp add: distribution_fields percentOf_Fin)

theorem distribution_zero_amount_tier_witness:
  "0 < length (itemsOfTier A [createAnalyzedItem 1 0 A V, createAnalyzedItem 2 0 A E]) \<and>
   sumAmount (itemsOfTier A [createAnalyzedItem 1 0 A V, createAnalyzedItem 2 0 A E]) = 0 \<and>
   percentAmount (getVENDistributionByABC [createAnalyzedItem 1 0 A V, createAnalyzedItem 2 0 A E] A V)
     = Fin 0 \<and>
   percentCount (getVENDistributionByABC [createAnalyzedItem 1 0 A V, createAnalyzedItem 2 0 A E] A V)
     = Fin 50"
  using distribution_zero_amount_tier [of A "[createAnalyzedItem 1 0 A V, createAnalyzedItem 2 0 A E]" V]
  by (simp add: itemsOfTier_def createAnalyzedItem_def)

subsection \<open>Categories without items, and totals of zero\<close>

text \<open>The entries of the summaries are three, in the order of the categories; the matrix
  has all its cells; and the entry of an empty category is all zero when the batch is not
  empty and its total is not zero.\<close>

lemma summaries_order:
  "map category (getABCSummary items) = [A, B, C] \<and>
   map category (getVENSummary items) = [V, E, N]"
  by (simp add: getABCSummary_entries getVENSummary_entries)

lemma getABCSummary_empty_tier:
  assumes "itemsOfTier B items = []" and "items \<noteq> []" and "sumAmount items \<noteq> 0"
  shows "getABCSummary items ! 1
     = \<lparr>count = 0, Group.amount = 0, percentCount = Fin 0, percentAmount = Fin 0, category = B\<rparr>"
  using assms by (simp add: getABCSummary_entries itemsOfTier_def percentOf_def)

lemma getABCVENMatrix_complete:
  "\<exists>matrix. getABCVENMatrix items = Some matrix \<and> (\<forall>a v. cellAt matrix a v \<noteq> None)"
  using getABCVENMatrix_cells [of items] by auto

text \<open>
  Claim C9 wants, for a batch without an item in category \<open>B\<close>, an entry for \<open>B\<close> whose
  four numbers are \<open>0\<close>. The batch that \<open>analyzeABC\<close> makes of one item of amount \<open>0\<close>
  has no item in \<open>B\<close>; its entry for \<open>B\<close> is there, second of three, with count and
  amount \<open>0\<close> and \<open>percentCount = 0\<close>, but its \<open>percentAmount\<close> is \<open>NaN\<close>.
\<close>

theorem summary_empty_tier_zero_total:
  "getABCSummary (analyzeABC [createItem 1 0 V]) ! 1
     = \<lparr>count = 0, Group.amount = 0, percentCount = Fin 0, percentAmount = NaN, category = B\<rparr>"
proof -
  have out: "analyzeABC [createItem 1 0 V]
      = [DrugItem.extend (createItem 1 0 V)
           \<lparr>percentOfTotal = NaN, cumulativePercent = NaN, abc = A\<rparr>]"
    by (simp add: analyzeABC_eval)
  show ?thesis
    unfolding out
    by (simp add: summary_eval createItem_def DrugItem.extend_def)
qed

text \<open>
  Claim C2 wants the percentage \<open>0\<close> wherever the denominator is zero. For one item of
  amount \<open>0\<close>, \<open>percentOfTotal\<close> is \<open>NaN\<close>, and so is every \<open>percentAmount\<close> of
  \<open>getABCSummary\<close>, of \<open>getVENSummary\<close> and of \<open>getABCVENMatrix\<close>; only
  \<open>getVENDistributionByABC\<close>, which tests its denominators, gives \<open>0\<close>. For the
  empty batch the count is zero as well, and every \<open>percentCount\<close> of the summaries is
  \<open>NaN\<close>.
\<close>

theorem zero_total_percentages_are_NaN:
  "map percentOfTotal (analyzeABC [createItem 1 0 V]) = [NaN] \<and>
   map percentAmount (getABCSummary (analyzeABC [createItem 1 0 V])) = [NaN, NaN, NaN] \<and>
   map percentAmount (getVENSummary (analyzeABC [createItem 1 0 V])) = [NaN, NaN, NaN] \<and>
   map_option (map percentAmount) (matrixCells (analyzeABC [createItem 1 0 V]))
     = Some [NaN, NaN, NaN, NaN, NaN, NaN, NaN, NaN, NaN] \<and>
   map percentAmount (tierCells (getVENDistributionByABC (analyzeABC [createItem 1 0 V])) A)
     = [Fin 0, Fin 0, Fin 0] \<and>
   map percentCount (getABCSummary []) = [NaN, NaN, NaN] \<and>
   map percentCount (getVENSummary []) = [NaN, NaN, NaN]"
proof -
  have out: "analyzeABC [createItem 1 0 V]
      = [DrugItem.extend (createItem 1 0 V)
           \<lparr>percentOfTotal = NaN, cumulativePercent = NaN, abc = A\<rparr>]"
    by (simp add: analyzeABC_eval)
  show ?thesis
    unfolding out
    by (simp add: summary_eval cells_eval dist_eval createItem_def DrugItem.extend_def)
qed

end
